theory Spec2Isabelle
  imports Complex_Main
begin

section \<open>Python values used by main2.py\<close>

text \<open>
  The script computes with Python floats. A float is modelled as a finite value or one of
  the three special values of IEEE 754. Finite values are taken as exact real numbers:
  rounding, underflow, overflow of a finite result to infinity and the sign of zero are left
  out, so a statement about the value of a finite result is a statement about the exact value.
  The special values follow IEEE 754 as Python exposes it: \<open>inf - inf\<close>, \<open>inf / inf\<close> and
  \<open>inf * 0\<close> are \<open>nan\<close>, every operation on \<open>nan\<close> gives \<open>nan\<close>, and every ordered
  comparison with \<open>nan\<close> is false.
\<close>

datatype pyfloat = Fin real | PInf | NInf | NaN

text \<open>
  The exceptions the loop body can meet, all subclasses of Python's \<open>Exception\<close>:
  whatever Selenium raises when an element cannot be found or read, the \<open>ValueError\<close> of
  \<open>float(text)\<close>, and the \<open>ZeroDivisionError\<close> of float division.
\<close>

datatype error = WebDriverException string | ValueError | ZeroDivisionError

fun float_add :: "pyfloat \<Rightarrow> pyfloat \<Rightarrow> pyfloat" where
  "float_add NaN _ = NaN"
| "float_add _ NaN = NaN"
| "float_add PInf NInf = NaN"
| "float_add NInf PInf = NaN"
| "float_add PInf _ = PInf"
| "float_add _ PInf = PInf"
| "float_add NInf _ = NInf"
| "float_add _ NInf = NInf"
| "float_add (Fin x) (Fin y) = Fin (x + y)"

fun float_sub :: "pyfloat \<Rightarrow> pyfloat \<Rightarrow> pyfloat" where
  "float_sub NaN _ = NaN"
| "float_sub _ NaN = NaN"
| "float_sub PInf PInf = NaN"
| "float_sub NInf NInf = NaN"
| "float_sub PInf _ = PInf"
| "float_sub _ PInf = NInf"
| "float_sub NInf _ = NInf"
| "float_sub _ NInf = PInf"
| "float_sub (Fin x) (Fin y) = Fin (x - y)"

fun float_abs :: "pyfloat \<Rightarrow> pyfloat" where
  "float_abs NaN = NaN"
| "float_abs PInf = PInf"
| "float_abs NInf = PInf"
| "float_abs (Fin x) = Fin \<bar>x\<bar>"

fun float_mul :: "pyfloat \<Rightarrow> pyfloat \<Rightarrow> pyfloat" where
  "float_mul NaN _ = NaN"
| "float_mul _ NaN = NaN"
| "float_mul PInf PInf = PInf"
| "float_mul NInf NInf = PInf"
| "float_mul PInf NInf = NInf"
| "float_mul NInf PInf = NInf"
| "float_mul PInf (Fin y) = (if y = 0 then NaN else if 0 < y then PInf else NInf)"
| "float_mul NInf (Fin y) = (if y = 0 then NaN else if 0 < y then NInf else PInf)"
| "float_mul (Fin x) PInf = (if x = 0 then NaN else if 0 < x then PInf else NInf)"
| "float_mul (Fin x) NInf = (if x = 0 then NaN else if 0 < x then NInf else PInf)"
| "float_mul (Fin x) (Fin y) = Fin (x * y)"

text \<open>The quotient of IEEE 754 for a divisor that is not zero.\<close>

fun ieee_div :: "pyfloat \<Rightarrow> pyfloat \<Rightarrow> pyfloat" where
  "ieee_div NaN _ = NaN"
| "ieee_div _ NaN = NaN"
| "ieee_div PInf PInf = NaN"
| "ieee_div PInf NInf = NaN"
| "ieee_div NInf PInf = NaN"
| "ieee_div NInf NInf = NaN"
| "ieee_div PInf (Fin y) = (if 0 < y then PInf else NInf)"
| "ieee_div NInf (Fin y) = (if 0 < y then NInf else PInf)"
| "ieee_div (Fin x) PInf = Fin 0"
| "ieee_div (Fin x) NInf = Fin 0"
| "ieee_div (Fin x) (Fin y) = Fin (x / y)"

text \<open>
  Python's \<open>a / b\<close> on floats tests \<open>b == 0.0\<close> first and raises \<open>ZeroDivisionError\<close>
  there, whatever \<open>a\<close> is; otherwise it is the IEEE quotient.
\<close>

definition float_truediv :: "pyfloat \<Rightarrow> pyfloat \<Rightarrow> error + pyfloat" where
  "float_truediv a b = (if b = Fin 0 then Inl ZeroDivisionError else Inr (ieee_div a b))"

fun float_lt :: "pyfloat \<Rightarrow> pyfloat \<Rightarrow> bool" where
  "float_lt NaN _ = False"
| "float_lt _ NaN = False"
| "float_lt (Fin x) (Fin y) = (x < y)"
| "float_lt _ NInf = False"
| "float_lt PInf _ = False"
| "float_lt NInf _ = True"
| "float_lt _ PInf = True"

definition float_gt :: "pyfloat \<Rightarrow> pyfloat \<Rightarrow> bool" where
  "float_gt a b = float_lt b a"

fun float_le :: "pyfloat \<Rightarrow> pyfloat \<Rightarrow> bool" where
  "float_le NaN _ = False"
| "float_le _ NaN = False"
| "float_le (Fin x) (Fin y) = (x \<le> y)"
| "float_le NInf _ = True"
| "float_le _ PInf = True"
| "float_le _ NInf = False"
| "float_le PInf _ = False"

fun is_finite :: "pyfloat \<Rightarrow> bool" where
  "is_finite (Fin x) = True"
| "is_finite _ = False"

text \<open>
  The builtins the script calls on floats are not part of the repository and are taken as
  parameters: \<open>float(text)\<close>, which may raise; \<open>format(x, '')\<close> as used by \<open>{data1}\<close> in an
  f-string; and \<open>format(x, '.nf')\<close> as used by \<open>{diff_absolute:.5f}\<close> and
  \<open>{diff_percent:.2f}\<close>.
\<close>

record builtins =
  float_of_str :: "string \<Rightarrow> error + pyfloat"
  str_of_float :: "pyfloat \<Rightarrow> string"
  format_f :: "nat \<Rightarrow> pyfloat \<Rightarrow> string"

text \<open>\<open>str(i)\<close> for a non-negative integer, as the f-string \<open>{i}\<close> renders the row number.\<close>

definition digit_char :: "nat \<Rightarrow> char" where
  "digit_char d = char_of (48 + d)"

fun str_of_nat :: "nat \<Rightarrow> string" where
  "str_of_nat n = (if n < 10 then [digit_char n] else str_of_nat (n div 10) @ [digit_char (n mod 10)])"

text \<open>The constants of colorama that the alert text embeds (ANSI escape sequences).\<close>

definition Fore_RED :: string where
  "Fore_RED = CHR 0x1B # ''[31m''"

definition Fore_GREEN :: string where
  "Fore_GREEN = CHR 0x1B # ''[32m''"

definition Fore_CYAN :: string where
  "Fore_CYAN = CHR 0x1B # ''[36m''"

definition Style_RESET_ALL :: string where
  "Style_RESET_ALL = CHR 0x1B # ''[0m''"

section \<open>Reading the four fields\<close>

text \<open>
  A browser session, as far as one tick sees it: \<open>driver.find_element(By.XPATH, xpath).text\<close>
  either raises or gives the element's text. The page is taken as it stands during the
  tick, so two reads of one XPath within a tick agree.
\<close>

type_synonym driver = "string \<Rightarrow> error + string"

definition mexc_sell_xpath :: "nat \<Rightarrow> string" where
  \<open>mexc_sell_xpath i =
     ''//*[@id="mexc-web-inspection-futures-exchange-orderbook"]/div[2]/div[2]/div[1]/div[1]/div[''
     @ str_of_nat i @ '']/div[1]/span''\<close>

definition mexc_buy_xpath :: string where
  \<open>mexc_buy_xpath =
     ''//*[@id="mexc-web-inspection-futures-exchange-orderbook"]/div[2]/div[2]/div[3]/div[1]/div[1]/div[1]/span''\<close>

definition lbank_sell_xpath :: "nat \<Rightarrow> string" where
  \<open>lbank_sell_xpath i =
     ''//*[@id="orderbook_container"]/div[2]/div[1]/ul/li['' @ str_of_nat i @ '']/div/span''\<close>

text \<open>The f-string of the LBank buy loop has no \<open>{i}\<close> in it: every iteration reads \<open>li[1]\<close>.\<close>

definition lbank_buy_xpath :: "nat \<Rightarrow> string" where
  \<open>lbank_buy_xpath i = ''//*[@id="orderbook_container"]/div[2]/div[3]/ul/li[1]/div/span''\<close>

text \<open>The two statements of every loop body: find the element, then \<open>float(element.text)\<close>.\<close>

definition read_price :: "builtins \<Rightarrow> driver \<Rightarrow> string \<Rightarrow> error + pyfloat" where
  "read_price bi drv xpath = (case drv xpath of Inl e \<Rightarrow> Inl e | Inr txt \<Rightarrow> float_of_str bi txt)"

text \<open>
  \<open>for i in rows: var = float(find(xpath(i)).text)\<close>. The result is the value of \<open>var\<close> when
  the loop ends, with the exception that ended it, if one did.
\<close>

fun for_rows :: "(nat \<Rightarrow> error + pyfloat) \<Rightarrow> nat list \<Rightarrow> pyfloat \<Rightarrow> pyfloat \<times> error option" where
  "for_rows body [] var = (var, None)"
| "for_rows body (i # rows) var =
     (case body i of Inl e \<Rightarrow> (var, Some e) | Inr x \<Rightarrow> for_rows body rows x)"

text \<open>A single \<open>var = float(find(xpath).text)\<close>, as for the MEXC buy field (no loop).\<close>

definition assign_price :: "(error + pyfloat) \<Rightarrow> pyfloat \<Rightarrow> pyfloat \<times> error option" where
  "assign_price stmt var = (case stmt of Inl e \<Rightarrow> (var, Some e) | Inr x \<Rightarrow> (x, None))"

text \<open>\<open>try: ... except Exception as e: pass\<close> around a field's statements keeps the variable.\<close>

definition except_pass :: "pyfloat \<times> error option \<Rightarrow> pyfloat" where
  "except_pass r = fst r"

text \<open>\<open>range(1, 20)\<close>\<close>

definition range_1_20 :: "nat list" where
  "range_1_20 = [1..<20]"

record quotes =
  data_last_sell_mexc :: pyfloat
  data_last_buy_mexc :: pyfloat
  data_last_sell_lbank :: pyfloat
  data_last_buy_lbank :: pyfloat

text \<open>
  Lines 31 to 75: the four variables start at \<open>0\<close>, each field is read inside its own
  \<open>try\<close>, and \<open>float(...)\<close> turns the integer \<open>0\<close> of an unread field into \<open>0.0\<close> (the model
  has one zero for both).
\<close>

definition get_data :: "builtins \<Rightarrow> driver \<Rightarrow> driver \<Rightarrow> quotes" where
  "get_data bi driver1 driver2 =
     \<lparr> data_last_sell_mexc =
         except_pass (for_rows (\<lambda>i. read_price bi driver1 (mexc_sell_xpath i)) range_1_20 (Fin 0)),
       data_last_buy_mexc =
         except_pass (assign_price (read_price bi driver1 mexc_buy_xpath) (Fin 0)),
       data_last_sell_lbank =
         except_pass (for_rows (\<lambda>i. read_price bi driver2 (lbank_sell_xpath i)) range_1_20 (Fin 0)),
       data_last_buy_lbank =
         except_pass (for_rows (\<lambda>i. read_price bi driver2 (lbank_buy_xpath i)) range_1_20 (Fin 0)) \<rparr>"

section \<open>Spread, threshold and the alert\<close>

definition mex_buy_and_lbnak_sell :: "quotes \<Rightarrow> pyfloat" where
  "mex_buy_and_lbnak_sell q = float_abs (float_sub (data_last_buy_mexc q) (data_last_sell_lbank q))"

definition lbank_buy_and_mex_sell :: "quotes \<Rightarrow> pyfloat" where
  "lbank_buy_and_mex_sell q = float_abs (float_sub (data_last_sell_mexc q) (data_last_buy_lbank q))"

text \<open>
  Direction 1 is the \<open>if\<close> branch (buy price of MEXC against sell price of LBank), direction 2
  the \<open>else\<close> branch (sell price of MEXC against buy price of LBank).
\<close>

datatype direction = Direction1 | Direction2

definition select_direction :: "quotes \<Rightarrow> direction" where
  "select_direction q =
     (if float_lt (mex_buy_and_lbnak_sell q) (lbank_buy_and_mex_sell q) then Direction1 else Direction2)"

text \<open>\<open>data1\<close> and \<open>data2\<close> of the branch taken.\<close>

definition selected_prices :: "quotes \<Rightarrow> pyfloat \<times> pyfloat" where
  "selected_prices q =
     (case select_direction q of
        Direction1 \<Rightarrow> (data_last_buy_mexc q, data_last_sell_lbank q)
      | Direction2 \<Rightarrow> (data_last_sell_mexc q, data_last_buy_lbank q))"

definition diff_absolute :: "pyfloat \<Rightarrow> pyfloat \<Rightarrow> pyfloat" where
  "diff_absolute data1 data2 = float_abs (float_sub data1 data2)"

text \<open>The divisor \<open>(data1 + data2) / 2\<close>; dividing by the literal 2 raises nothing.\<close>

definition divisor :: "pyfloat \<Rightarrow> pyfloat \<Rightarrow> pyfloat" where
  "divisor data1 data2 = ieee_div (float_add data1 data2) (Fin 2)"

definition diff_percent :: "pyfloat \<Rightarrow> pyfloat \<Rightarrow> error + pyfloat" where
  "diff_percent data1 data2 =
     (case float_truediv (diff_absolute data1 data2) (divisor data1 data2) of
        Inl e \<Rightarrow> Inl e
      | Inr r \<Rightarrow> Inr (float_mul r (Fin 100)))"

definition threshold :: pyfloat where
  "threshold = Fin 1.5"

definition new_text :: "builtins \<Rightarrow> string \<Rightarrow> string \<Rightarrow> pyfloat \<Rightarrow> pyfloat \<Rightarrow> pyfloat \<Rightarrow> pyfloat \<Rightarrow> string" where
  "new_text bi colour1 colour2 data1 data2 d_abs d_pct =
     ''DEBT_USDT    =>  '' @ Style_RESET_ALL @ ''MEXC Future: '' @ colour1 @ str_of_float bi data1
       @ Style_RESET_ALL @ '' |''
     @ '' LBank Future: '' @ colour2 @ str_of_float bi data2 @ Style_RESET_ALL @ '' | ''
     @ ''Abs Diff: '' @ Fore_CYAN @ format_f bi 5 d_abs @ Style_RESET_ALL @ '' | ''
     @ ''% Diff: '' @ Fore_CYAN @ format_f bi 2 d_pct @ ''%'' @ Style_RESET_ALL @ '' | ''"

text \<open>What the loop writes to the console: a string, or an exception object (\<open>print(e)\<close>).\<close>

datatype console = Print string | Print_exc error

text \<open>
  The body of the \<open>try\<close> of a branch. It returns the new value of \<open>old_text\<close> and what was
  printed; the only statement that can raise is the division, before anything is printed
  or assigned. \<open>now\<close> is \<open>str(jdatetime.datetime.now())\<close> at this tick.
\<close>

definition alert_body ::
  "builtins \<Rightarrow> string \<Rightarrow> string \<Rightarrow> pyfloat \<Rightarrow> pyfloat \<Rightarrow> string \<Rightarrow> string \<Rightarrow> error + string \<times> console list" where
  "alert_body bi colour1 colour2 data1 data2 now old_text =
     (case diff_percent data1 data2 of
        Inl e \<Rightarrow> Inl e
      | Inr d_pct \<Rightarrow>
          if float_gt d_pct threshold then
            let txt = new_text bi colour1 colour2 data1 data2 (diff_absolute data1 data2) d_pct in
            if old_text \<noteq> txt then Inr (txt, [Print (txt @ ''Time: '' @ now)])
            else Inr (old_text, [])
          else Inr (old_text, []))"

text \<open>\<open>try: ... except Exception as e: print(e)\<close>\<close>

definition try_except_print ::
  "(error + string \<times> console list) \<Rightarrow> string \<Rightarrow> error + string \<times> console list" where
  "try_except_print body old_text =
     (case body of Inl e \<Rightarrow> Inr (old_text, [Print_exc e]) | Inr r \<Rightarrow> Inr r)"

text \<open>Lines 77 to 118 on the four prices of a tick.\<close>

definition signal :: "builtins \<Rightarrow> quotes \<Rightarrow> string \<Rightarrow> string \<Rightarrow> error + string \<times> console list" where
  "signal bi q now old_text =
     (case select_direction q of
        Direction1 \<Rightarrow>
          try_except_print
            (alert_body bi Fore_GREEN Fore_RED (data_last_buy_mexc q) (data_last_sell_lbank q) now old_text)
            old_text
      | Direction2 \<Rightarrow>
          try_except_print
            (alert_body bi Fore_RED Fore_GREEN (data_last_sell_mexc q) (data_last_buy_lbank q) now old_text)
            old_text)"

text \<open>What one pass through the loop body meets: the two pages and the clock.\<close>

record tick_env =
  driver1 :: driver
  driver2 :: driver
  clock :: string

definition tick :: "builtins \<Rightarrow> tick_env \<Rightarrow> string \<Rightarrow> error + string \<times> console list" where
  "tick bi env old_text = signal bi (get_data bi (driver1 env) (driver2 env)) (clock env) old_text"

text \<open>
  \<open>while True\<close> over the ticks the environment supplies. An exception that leaves a tick
  ends the loop (\<open>Inl\<close>); otherwise the next tick starts from the \<open>old_text\<close> this one left.
  The result counts the ticks completed and collects the console.
\<close>

fun monitor :: "builtins \<Rightarrow> tick_env list \<Rightarrow> string \<Rightarrow> error + string \<times> console list \<times> nat" where
  "monitor bi [] old_text = Inr (old_text, [], 0)"
| "monitor bi (env # envs) old_text =
     (case tick bi env old_text of
        Inl e \<Rightarrow> Inl e
      | Inr (txt, out) \<Rightarrow>
          (case monitor bi envs txt of
             Inl e \<Rightarrow> Inl e
           | Inr (txt', out', n) \<Rightarrow> Inr (txt', out @ out', Suc n)))"

section \<open>Notions used to state the properties\<close>

text \<open>
  The text a tick renders, if it gets as far as rendering one: the value of \<open>new_text\<close> in
  the branch taken when the percentage is computed and exceeds the threshold. It has no
  timestamp in it; the timestamp is appended only inside \<open>print\<close>.
\<close>

definition rendered :: "builtins \<Rightarrow> string \<Rightarrow> string \<Rightarrow> pyfloat \<Rightarrow> pyfloat \<Rightarrow> string option" where
  "rendered bi colour1 colour2 data1 data2 =
     (case diff_percent data1 data2 of
        Inl e \<Rightarrow> None
      | Inr d_pct \<Rightarrow>
          if float_gt d_pct threshold
          then Some (new_text bi colour1 colour2 data1 data2 (diff_absolute data1 data2) d_pct)
          else None)"

definition alert_text :: "builtins \<Rightarrow> quotes \<Rightarrow> string option" where
  "alert_text bi q =
     (case select_direction q of
        Direction1 \<Rightarrow> rendered bi Fore_GREEN Fore_RED (data_last_buy_mexc q) (data_last_sell_lbank q)
      | Direction2 \<Rightarrow> rendered bi Fore_RED Fore_GREEN (data_last_sell_mexc q) (data_last_buy_lbank q))"

text \<open>
  The value a scan is said to leave in its variable: the result of the last row read before
  the first read that fails, or the initial 0 when the first row already fails.
\<close>

definition last_read_before_failure :: "(nat \<Rightarrow> error + pyfloat) \<Rightarrow> nat list \<Rightarrow> pyfloat" where
  "last_read_before_failure body rows =
     (let good = takeWhile (\<lambda>i. \<not> isl (body i)) rows
      in if good = [] then Fin 0 else projr (body (last good)))"

section \<open>A small instance for examples\<close>

text \<open>
  An instance of the builtins that is right on prices written as whole numbers:
  \<open>float('98')\<close> is \<open>98.0\<close>, which prints as \<open>98.0\<close> and, with \<open>.2f\<close>, as \<open>98.00\<close>.
  Python's builtins accept and print much more; the examples below stay inside this part.
\<close>

definition is_digit :: "char \<Rightarrow> bool" where
  "is_digit c = (48 \<le> (of_char c :: nat) \<and> (of_char c :: nat) \<le> 57)"

definition digits_value :: "string \<Rightarrow> nat" where
  "digits_value s = foldl (\<lambda>n c. 10 * n + (of_char c - 48)) 0 s"

definition whole_float_of_str :: "string \<Rightarrow> error + pyfloat" where
  "whole_float_of_str s =
     (if s \<noteq> [] \<and> list_all is_digit s then Inr (Fin (real (digits_value s))) else Inl ValueError)"

fun whole_part :: "pyfloat \<Rightarrow> string" where
  "whole_part (Fin x) = (if x < 0 then ''-'' else []) @ str_of_nat (nat \<lfloor>\<bar>x\<bar>\<rfloor>)"
| "whole_part PInf = ''inf''"
| "whole_part NInf = ''-inf''"
| "whole_part NaN = ''nan''"

definition whole_format_f :: "nat \<Rightarrow> pyfloat \<Rightarrow> string" where
  "whole_format_f n x = (if is_finite x then whole_part x @ ''.'' @ replicate n (CHR ''0'') else whole_part x)"

definition example_builtins :: builtins where
  "example_builtins =
     \<lparr> float_of_str = whole_float_of_str,
       str_of_float = (\<lambda>x. whole_format_f 1 x),
       format_f = whole_format_f \<rparr>"

text \<open>A page given by the elements it has; any other XPath raises.\<close>

definition example_page :: "(string \<times> string) list \<Rightarrow> driver" where
  "example_page elements xpath =
     (case map_of elements xpath of
        None \<Rightarrow> Inl (WebDriverException ''no such element'')
      | Some txt \<Rightarrow> Inr txt)"

section \<open>Auxiliary facts\<close>

lemma diff_percent_Fin:
  "diff_percent (Fin a) (Fin b) =
     (if a + b = 0 then Inl ZeroDivisionError else Inr (Fin (\<bar>a - b\<bar> / ((a + b) / 2) * 100)))"
  by (simp add: diff_percent_def diff_absolute_def divisor_def float_truediv_def)

lemma signal_selected:
  "signal bi q now old_text =
     try_except_print
       (alert_body bi
          (if select_direction q = Direction1 then Fore_GREEN else Fore_RED)
          (if select_direction q = Direction1 then Fore_RED else Fore_GREEN)
          (fst (selected_prices q)) (snd (selected_prices q)) now old_text)
       old_text"
  by (cases "select_direction q") (simp_all add: signal_def selected_prices_def)

lemma new_text_not_empty: "new_text bi colour1 colour2 data1 data2 d_abs d_pct \<noteq> []"
  by (simp add: new_text_def)

lemma try_except_print_returns: "\<exists>txt out. try_except_print body old_text = Inr (txt, out)"
  by (cases body) (auto simp: try_except_print_def)

lemma signal_returns: "\<exists>txt out. signal bi q now old_text = Inr (txt, out)"
  by (simp add: signal_selected try_except_print_returns)

lemma alert_body_diagnostics:
  "try_except_print (alert_body bi colour1 colour2 data1 data2 now old_text) old_text = Inr (txt, out)
   \<Longrightarrow> Print_exc e \<in> set out \<Longrightarrow> e = ZeroDivisionError"
  by (auto simp: try_except_print_def alert_body_def diff_percent_def float_truediv_def Let_def
      split: sum.splits if_splits)

lemma signal_diagnostics:
  "signal bi q now old_text = Inr (txt, out) \<Longrightarrow> Print_exc e \<in> set out \<Longrightarrow> e = ZeroDivisionError"
  unfolding signal_selected by (rule alert_body_diagnostics)

text \<open>The three outcomes of the branch taken, in terms of the text it renders.\<close>

lemma signal_rendered:
  "signal bi q now old_text =
     (case diff_percent (fst (selected_prices q)) (snd (selected_prices q)) of
        Inl e \<Rightarrow> Inr (old_text, [Print_exc e])
      | Inr d_pct \<Rightarrow>
          (case alert_text bi q of
             None \<Rightarrow> Inr (old_text, [])
           | Some txt \<Rightarrow>
               if old_text \<noteq> txt then Inr (txt, [Print (txt @ ''Time: '' @ now)])
               else Inr (old_text, [])))"
  by (cases "select_direction q")
     (simp_all add: signal_def selected_prices_def alert_text_def rendered_def alert_body_def
        try_except_print_def Let_def split: sum.splits)

lemma monitor_returns: "\<exists>txt out. monitor bi envs old_text = Inr (txt, out, length envs)"
proof (induction envs arbitrary: old_text)
  case Nil
  show ?case by simp
next
  case (Cons env envs)
  from signal_returns obtain txt1 out1 where tk: "tick bi env old_text = Inr (txt1, out1)"
    unfolding tick_def by blast
  from Cons.IH [of txt1] obtain txt2 out2 where "monitor bi envs txt1 = Inr (txt2, out2, length envs)"
    by blast
  with tk show ?case by simp
qed

lemma float_le_not_gt: "float_le a b \<Longrightarrow> \<not> float_gt a b"
  by (cases a; cases b) (simp_all add: float_gt_def)

lemma alert_text_above:
  "alert_text bi q = Some txt \<Longrightarrow>
     \<exists>d_pct. diff_percent (fst (selected_prices q)) (snd (selected_prices q)) = Inr d_pct
        \<and> float_gt d_pct threshold"
  by (cases "select_direction q")
     (auto simp: alert_text_def rendered_def selected_prices_def split: sum.splits if_splits)

lemma alert_text_below:
  "diff_percent (fst (selected_prices q)) (snd (selected_prices q)) = Inr d_pct
     \<Longrightarrow> \<not> float_gt d_pct threshold \<Longrightarrow> alert_text bi q = None"
  by (cases "select_direction q")
     (auto simp: alert_text_def rendered_def selected_prices_def split: sum.splits if_splits)

lemma alert_text_not_empty: "alert_text bi q = Some txt \<Longrightarrow> txt \<noteq> []"
  by (cases "select_direction q")
     (auto simp: alert_text_def rendered_def new_text_not_empty split: sum.splits if_splits)

lemma for_rows_last_read:
  "fst (for_rows body rows var) =
     (let good = takeWhile (\<lambda>i. \<not> isl (body i)) rows
      in if good = [] then var else projr (body (last good)))"
  by (induction rows arbitrary: var) (auto simp: Let_def split: sum.splits)

lemma for_rows_constant:
  "fst (for_rows (\<lambda>i. r) (i # rows) var) = (case r of Inl e \<Rightarrow> var | Inr x \<Rightarrow> x)"
  by (induction rows arbitrary: i var) (auto split: sum.splits)

lemma range_1_20_Cons: "range_1_20 = 1 # [2..<20]"
  by (simp add: range_1_20_def upt_conv_Cons)

section \<open>Direction selection\<close>

text \<open>
  C2, as stated, fails on a tie: with all four prices equal to 100 both absolute differences
  are 0, the test \<open>mex_buy_and_lbnak_sell < lbank_buy_and_mex_sell\<close> is false and the
  \<open>else\<close> branch, direction 2, runs.
\<close>

theorem tie_selects_direction2:
  "mex_buy_and_lbnak_sell \<lparr> data_last_sell_mexc = Fin 100, data_last_buy_mexc = Fin 100,
        data_last_sell_lbank = Fin 100, data_last_buy_lbank = Fin 100 \<rparr>
     = lbank_buy_and_mex_sell \<lparr> data_last_sell_mexc = Fin 100, data_last_buy_mexc = Fin 100,
        data_last_sell_lbank = Fin 100, data_last_buy_lbank = Fin 100 \<rparr>
   \<and> select_direction \<lparr> data_last_sell_mexc = Fin 100, data_last_buy_mexc = Fin 100,
        data_last_sell_lbank = Fin 100, data_last_buy_lbank = Fin 100 \<rparr> \<noteq> Direction1"
  by (simp add: select_direction_def mex_buy_and_lbnak_sell_def lbank_buy_and_mex_sell_def)

text \<open>
  C2 (amended): direction selection is a function of the four prices. On finite prices the
  two differences are \<open>|a_buy - b_sell|\<close> and \<open>|a_sell - b_buy|\<close>; when they are unequal the
  direction with the smaller one is selected, and when they are equal direction 2 (sell
  price of MEXC against buy price of LBank) is selected.
\<close>

theorem direction_selection:
  assumes "data_last_sell_mexc q = Fin a_sell" and "data_last_buy_mexc q = Fin a_buy"
    and "data_last_sell_lbank q = Fin b_sell" and "data_last_buy_lbank q = Fin b_buy"
  shows "mex_buy_and_lbnak_sell q = Fin \<bar>a_buy - b_sell\<bar>
     \<and> lbank_buy_and_mex_sell q = Fin \<bar>a_sell - b_buy\<bar>
     \<and> (\<bar>a_buy - b_sell\<bar> < \<bar>a_sell - b_buy\<bar> \<longrightarrow> select_direction q = Direction1)
     \<and> (\<bar>a_sell - b_buy\<bar> < \<bar>a_buy - b_sell\<bar> \<longrightarrow> select_direction q = Direction2)
     \<and> (\<bar>a_buy - b_sell\<bar> = \<bar>a_sell - b_buy\<bar> \<longrightarrow> select_direction q = Direction2)"
  using assms
  by (simp add: select_direction_def mex_buy_and_lbnak_sell_def lbank_buy_and_mex_sell_def)

theorem direction_selection_witness:
  "select_direction \<lparr> data_last_sell_mexc = Fin 100, data_last_buy_mexc = Fin 99,
        data_last_sell_lbank = Fin 100, data_last_buy_lbank = Fin 97 \<rparr> = Direction1
   \<and> select_direction \<lparr> data_last_sell_mexc = Fin 100, data_last_buy_mexc = Fin 98,
        data_last_sell_lbank = Fin 103, data_last_buy_lbank = Fin 100 \<rparr> = Direction2
   \<and> select_direction \<lparr> data_last_sell_mexc = Fin 100, data_last_buy_mexc = Fin 100,
        data_last_sell_lbank = Fin 100, data_last_buy_lbank = Fin 100 \<rparr> = Direction2"
  using
    direction_selection [of "\<lparr> data_last_sell_mexc = Fin 100, data_last_buy_mexc = Fin 99,
        data_last_sell_lbank = Fin 100, data_last_buy_lbank = Fin 97 \<rparr>" 100 99 100 97]
    direction_selection [of "\<lparr> data_last_sell_mexc = Fin 100, data_last_buy_mexc = Fin 98,
        data_last_sell_lbank = Fin 103, data_last_buy_lbank = Fin 100 \<rparr>" 100 98 103 100]
    direction_selection [of "\<lparr> data_last_sell_mexc = Fin 100, data_last_buy_mexc = Fin 100,
        data_last_sell_lbank = Fin 100, data_last_buy_lbank = Fin 100 \<rparr>" 100 100 100 100]
  by simp

section \<open>The percentage\<close>

text \<open>
  C3: for two strictly positive prices \<open>p1\<close> and \<open>p2\<close> the percentage computed by either
  branch is \<open>|p1 - p2| / ((p1 + p2) / 2) * 100\<close>, no exception is raised, and swapping the
  two prices gives the same value.
\<close>

theorem diff_percent_formula:
  assumes "0 < p1" and "0 < p2"
  shows "diff_percent (Fin p1) (Fin p2) = Inr (Fin (\<bar>p1 - p2\<bar> / ((p1 + p2) / 2) * 100))
     \<and> diff_percent (Fin p2) (Fin p1) = diff_percent (Fin p1) (Fin p2)"
proof -
  from assms have "p1 + p2 \<noteq> 0" by simp
  then show ?thesis
    by (simp add: diff_percent_Fin add.commute abs_minus_commute)
qed

theorem diff_percent_formula_witness:
  "(0::real) < 98 \<and> (0::real) < 103
   \<and> diff_percent (Fin 98) (Fin 103) = Inr (Fin (1000 / 201))
   \<and> diff_percent (Fin 103) (Fin 98) = Inr (Fin (1000 / 201))"
  using diff_percent_formula [of 98 103] by simp

text \<open>
  C7: with both prices strictly positive the divisor \<open>(p1 + p2) / 2\<close> is not zero, so the
  division of line 87 and of line 107 does not raise \<open>ZeroDivisionError\<close>.
\<close>

theorem divisor_nonzero:
  assumes "0 < p1" and "0 < p2"
  shows "divisor (Fin p1) (Fin p2) = Fin ((p1 + p2) / 2)
     \<and> divisor (Fin p1) (Fin p2) \<noteq> Fin 0
     \<and> float_truediv (diff_absolute (Fin p1) (Fin p2)) (divisor (Fin p1) (Fin p2)) \<noteq> Inl ZeroDivisionError
     \<and> diff_percent (Fin p1) (Fin p2) \<noteq> Inl ZeroDivisionError"
proof -
  from assms have "p1 + p2 \<noteq> 0" by simp
  then show ?thesis
    by (simp add: divisor_def float_truediv_def diff_percent_def)
qed

theorem divisor_nonzero_witness:
  "(0::real) < 99 \<and> (0::real) < 101
   \<and> divisor (Fin 99) (Fin 101) = Fin 100
   \<and> diff_percent (Fin 99) (Fin 101) \<noteq> Inl ZeroDivisionError"
  using divisor_nonzero [of 99 101] by simp

section \<open>Scenario\<close>

text \<open>
  C6: on \<open>a_sell = 100.0\<close>, \<open>a_buy = 98.0\<close>, \<open>b_sell = 103.0\<close>, \<open>b_buy = 100.0\<close> the two
  differences are 5 and 0, direction 2 is selected, its percentage is 0, nothing is printed
  and \<open>old_text\<close> keeps its value; the percentage of direction 1 would have been
  \<open>1000/201\<close>, about 4.97, above the threshold.
\<close>

theorem scenario_3:
  "mex_buy_and_lbnak_sell \<lparr> data_last_sell_mexc = Fin 100, data_last_buy_mexc = Fin 98,
        data_last_sell_lbank = Fin 103, data_last_buy_lbank = Fin 100 \<rparr> = Fin 5
   \<and> lbank_buy_and_mex_sell \<lparr> data_last_sell_mexc = Fin 100, data_last_buy_mexc = Fin 98,
        data_last_sell_lbank = Fin 103, data_last_buy_lbank = Fin 100 \<rparr> = Fin 0
   \<and> select_direction \<lparr> data_last_sell_mexc = Fin 100, data_last_buy_mexc = Fin 98,
        data_last_sell_lbank = Fin 103, data_last_buy_lbank = Fin 100 \<rparr> = Direction2
   \<and> diff_percent (Fin 100) (Fin 100) = Inr (Fin 0)
   \<and> signal bi \<lparr> data_last_sell_mexc = Fin 100, data_last_buy_mexc = Fin 98,
        data_last_sell_lbank = Fin 103, data_last_buy_lbank = Fin 100 \<rparr> now old_text = Inr (old_text, [])
   \<and> diff_percent (Fin 98) (Fin 103) = Inr (Fin (1000 / 201))
   \<and> float_gt (Fin (1000 / 201)) threshold"
  by (simp add: mex_buy_and_lbnak_sell_def lbank_buy_and_mex_sell_def select_direction_def
      diff_percent_Fin signal_def alert_body_def try_except_print_def float_gt_def threshold_def)

section \<open>The threshold and the dedup of alerts\<close>

text \<open>
  C4: when the percentage of the selected direction is computed and is at most 1.5, the
  tick prints nothing and leaves \<open>old_text\<close> as it was; and whenever a tick prints an alert
  line or changes \<open>old_text\<close>, the percentage was computed and is greater than 1.5.
\<close>

theorem threshold_gate:
  assumes "selected_prices q = (data1, data2)"
  shows "(\<forall>d_pct. diff_percent data1 data2 = Inr d_pct \<and> float_le d_pct threshold
            \<longrightarrow> signal bi q now old_text = Inr (old_text, []))
     \<and> (\<forall>txt out. signal bi q now old_text = Inr (txt, out) \<and> (txt \<noteq> old_text \<or> (\<exists>s. Print s \<in> set out))
            \<longrightarrow> (\<exists>d_pct. diff_percent data1 data2 = Inr d_pct \<and> float_gt d_pct threshold))"
proof (intro conjI allI impI)
  fix d_pct
  assume "diff_percent data1 data2 = Inr d_pct \<and> float_le d_pct threshold"
  then have p: "diff_percent data1 data2 = Inr d_pct" and "\<not> float_gt d_pct threshold"
    by (simp_all add: float_le_not_gt)
  with assms have "alert_text bi q = None"
    by (simp add: alert_text_below)
  with p assms show "signal bi q now old_text = Inr (old_text, [])"
    by (simp add: signal_rendered)
next
  fix tx out
  assume h: "signal bi q now old_text = Inr (tx, out) \<and> (tx \<noteq> old_text \<or> (\<exists>s. Print s \<in> set out))"
  then have "\<exists>t. alert_text bi q = Some t"
    by (auto simp: signal_rendered split: sum.splits option.splits if_splits)
  then obtain t1 where "alert_text bi q = Some t1" by blast
  from alert_text_above [OF this] assms
  show "\<exists>d_pct. diff_percent data1 data2 = Inr d_pct \<and> float_gt d_pct threshold"
    by simp
qed

theorem threshold_gate_witness:
  "selected_prices \<lparr> data_last_sell_mexc = Fin 100, data_last_buy_mexc = Fin 99,
        data_last_sell_lbank = Fin (203 / 2), data_last_buy_lbank = Fin (201 / 2) \<rparr>
     = (Fin 100, Fin (201 / 2))
   \<and> diff_percent (Fin 100) (Fin (201 / 2)) = Inr (Fin (200 / 401))
   \<and> float_le (Fin (200 / 401)) threshold
   \<and> signal example_builtins \<lparr> data_last_sell_mexc = Fin 100, data_last_buy_mexc = Fin 99,
        data_last_sell_lbank = Fin (203 / 2), data_last_buy_lbank = Fin (201 / 2) \<rparr>
        ''10:00:00'' ''old'' = Inr (''old'', [])
   \<and> selected_prices \<lparr> data_last_sell_mexc = Fin 120, data_last_buy_mexc = Fin 100,
        data_last_sell_lbank = Fin 104, data_last_buy_lbank = Fin 100 \<rparr>
     = (Fin 100, Fin 104)
   \<and> signal example_builtins \<lparr> data_last_sell_mexc = Fin 120, data_last_buy_mexc = Fin 100,
        data_last_sell_lbank = Fin 104, data_last_buy_lbank = Fin 100 \<rparr> ''10:00:00'' []
     = Inr (new_text example_builtins Fore_GREEN Fore_RED (Fin 100) (Fin 104) (Fin 4) (Fin (200 / 51)),
            [Print (new_text example_builtins Fore_GREEN Fore_RED (Fin 100) (Fin 104) (Fin 4) (Fin (200 / 51))
                    @ ''Time: 10:00:00'')])
   \<and> diff_percent (Fin 100) (Fin 104) = Inr (Fin (200 / 51))
   \<and> float_gt (Fin (200 / 51)) threshold"
proof -
  let ?q1 = "\<lparr> data_last_sell_mexc = Fin 100, data_last_buy_mexc = Fin 99,
        data_last_sell_lbank = Fin (203 / 2), data_last_buy_lbank = Fin (201 / 2) \<rparr>"
  let ?q2 = "\<lparr> data_last_sell_mexc = Fin 120, data_last_buy_mexc = Fin 100,
        data_last_sell_lbank = Fin 104, data_last_buy_lbank = Fin 100 \<rparr>"
  have s1: "selected_prices ?q1 = (Fin 100, Fin (201 / 2))"
    by (simp add: selected_prices_def select_direction_def mex_buy_and_lbnak_sell_def
        lbank_buy_and_mex_sell_def)
  have s2: "selected_prices ?q2 = (Fin 100, Fin 104)"
    by (simp add: selected_prices_def select_direction_def mex_buy_and_lbnak_sell_def
        lbank_buy_and_mex_sell_def)
  have p1: "diff_percent (Fin 100) (Fin (201 / 2)) = Inr (Fin (200 / 401))"
    by (simp add: diff_percent_Fin)
  have p2: "diff_percent (Fin 100) (Fin 104) = Inr (Fin (200 / 51))"
    by (simp add: diff_percent_Fin)
  have le: "float_le (Fin (200 / 401)) threshold"
    by (simp add: threshold_def)
  have e2: "signal example_builtins ?q2 ''10:00:00'' []
     = Inr (new_text example_builtins Fore_GREEN Fore_RED (Fin 100) (Fin 104) (Fin 4) (Fin (200 / 51)),
            [Print (new_text example_builtins Fore_GREEN Fore_RED (Fin 100) (Fin 104) (Fin 4) (Fin (200 / 51))
                    @ ''Time: 10:00:00'')])"
    by (simp add: signal_def select_direction_def mex_buy_and_lbnak_sell_def
        lbank_buy_and_mex_sell_def try_except_print_def alert_body_def diff_percent_Fin
        float_gt_def threshold_def diff_absolute_def Let_def new_text_not_empty [symmetric])
  from threshold_gate [OF s1, of example_builtins "''10:00:00''" "''old''"] p1 le
  have e1: "signal example_builtins ?q1 ''10:00:00'' ''old'' = Inr (''old'', [])"
    by blast
  from threshold_gate [OF s2, of example_builtins "''10:00:00''" "[]"] e2
  have "\<exists>d_pct. diff_percent (Fin 100) (Fin 104) = Inr d_pct \<and> float_gt d_pct threshold"
    by simp
  with p2 have gt: "float_gt (Fin (200 / 51)) threshold"
    by simp
  from s1 p1 le e1 s2 e2 p2 gt show ?thesis
    by blast
qed

text \<open>
  C5: the dedup compares \<open>new_text\<close>, which holds no timestamp. When two consecutive ticks
  above the threshold render the same text \<open>t\<close>, whatever their timestamps, the second
  prints nothing and leaves \<open>old_text\<close> as the first left it; the first prints the one line
  \<open>t + "Time: ..."\<close> unless \<open>t\<close> was already the last text emitted. So from any state whose
  \<open>old_text\<close> differs from \<open>t\<close>, the initial empty one included, the two ticks emit exactly
  once.
\<close>

theorem dedup_idempotent:
  assumes "alert_text bi q1 = Some t" and "alert_text bi q2 = Some t"
    and "signal bi q1 now1 old_text = Inr (txt1, out1)"
    and "signal bi q2 now2 txt1 = Inr (txt2, out2)"
  shows "txt1 = t \<and> txt2 = t \<and> out2 = []
     \<and> out1 = (if old_text = t then [] else [Print (t @ ''Time: '' @ now1)])
     \<and> (old_text \<noteq> t \<longrightarrow> length (out1 @ out2) = 1)
     \<and> (old_text = [] \<longrightarrow> length (out1 @ out2) = 1)"
proof -
  from assms(1) have ne: "t \<noteq> []" by (rule alert_text_not_empty)
  from alert_text_above [OF assms(1)] obtain p1
    where p1: "diff_percent (fst (selected_prices q1)) (snd (selected_prices q1)) = Inr p1" by blast
  from alert_text_above [OF assms(2)] obtain p2
    where p2: "diff_percent (fst (selected_prices q2)) (snd (selected_prices q2)) = Inr p2" by blast
  from assms(3) p1 assms(1)
  have first: "txt1 = t \<and> out1 = (if old_text = t then [] else [Print (t @ ''Time: '' @ now1)])"
    by (auto simp: signal_rendered split: if_splits)
  with assms(4) p2 assms(2) have second: "txt2 = t \<and> out2 = []"
    by (auto simp: signal_rendered split: if_splits)
  from first second ne show ?thesis by auto
qed

theorem dedup_idempotent_witness:
  "alert_text example_builtins \<lparr> data_last_sell_mexc = Fin 120, data_last_buy_mexc = Fin 100,
        data_last_sell_lbank = Fin 104, data_last_buy_lbank = Fin 100 \<rparr>
     = Some (new_text example_builtins Fore_GREEN Fore_RED (Fin 100) (Fin 104) (Fin 4) (Fin (200 / 51)))
   \<and> signal example_builtins \<lparr> data_last_sell_mexc = Fin 120, data_last_buy_mexc = Fin 100,
        data_last_sell_lbank = Fin 104, data_last_buy_lbank = Fin 100 \<rparr> ''10:00:00'' []
     = Inr (new_text example_builtins Fore_GREEN Fore_RED (Fin 100) (Fin 104) (Fin 4) (Fin (200 / 51)),
            [Print (new_text example_builtins Fore_GREEN Fore_RED (Fin 100) (Fin 104) (Fin 4) (Fin (200 / 51))
                    @ ''Time: 10:00:00'')])
   \<and> signal example_builtins \<lparr> data_last_sell_mexc = Fin 120, data_last_buy_mexc = Fin 100,
        data_last_sell_lbank = Fin 104, data_last_buy_lbank = Fin 100 \<rparr> ''10:00:01''
        (new_text example_builtins Fore_GREEN Fore_RED (Fin 100) (Fin 104) (Fin 4) (Fin (200 / 51)))
     = Inr (new_text example_builtins Fore_GREEN Fore_RED (Fin 100) (Fin 104) (Fin 4) (Fin (200 / 51)), [])"
proof -
  let ?q = "\<lparr> data_last_sell_mexc = Fin 120, data_last_buy_mexc = Fin 100,
        data_last_sell_lbank = Fin 104, data_last_buy_lbank = Fin 100 \<rparr>"
  let ?t = "new_text example_builtins Fore_GREEN Fore_RED (Fin 100) (Fin 104) (Fin 4) (Fin (200 / 51))"
  have a: "alert_text example_builtins ?q = Some ?t"
    by (simp add: alert_text_def rendered_def select_direction_def mex_buy_and_lbnak_sell_def
        lbank_buy_and_mex_sell_def diff_percent_Fin float_gt_def threshold_def diff_absolute_def)
  obtain txt1 out1 where f: "signal example_builtins ?q ''10:00:00'' [] = Inr (txt1, out1)"
    using signal_returns by blast
  obtain txt2 out2 where g: "signal example_builtins ?q ''10:00:01'' txt1 = Inr (txt2, out2)"
    using signal_returns by blast
  from dedup_idempotent [OF a a f g] new_text_not_empty [of example_builtins]
  have "txt1 = ?t \<and> txt2 = ?t \<and> out2 = [] \<and> out1 = [Print (?t @ ''Time: 10:00:00'')]"
    by (auto split: if_splits)
  with a f g show ?thesis by simp
qed

section \<open>Prices that are not valid\<close>

text \<open>
  C1, as stated, fails. When the MEXC page cannot be read at all and LBank shows 101 and
  100, the four prices are 0, 0, 101, 100; direction 2 is selected with the prices 0 and
  100, the percentage is 200, and the tick prints an alert.
\<close>

theorem zero_price_reaches_alert:
  "get_data example_builtins (example_page [])
       (example_page [(lbank_sell_xpath 1, ''101''), (lbank_buy_xpath 1, ''100'')])
     = \<lparr> data_last_sell_mexc = Fin 0, data_last_buy_mexc = Fin 0,
         data_last_sell_lbank = Fin 101, data_last_buy_lbank = Fin 100 \<rparr>
   \<and> selected_prices \<lparr> data_last_sell_mexc = Fin 0, data_last_buy_mexc = Fin 0,
         data_last_sell_lbank = Fin 101, data_last_buy_lbank = Fin 100 \<rparr> = (Fin 0, Fin 100)
   \<and> diff_percent (Fin 0) (Fin 100) = Inr (Fin 200)
   \<and> tick example_builtins
        \<lparr> driver1 = example_page [],
          driver2 = example_page [(lbank_sell_xpath 1, ''101''), (lbank_buy_xpath 1, ''100'')],
          clock = ''10:00:00'' \<rparr> []
     = Inr (new_text example_builtins Fore_RED Fore_GREEN (Fin 0) (Fin 100) (Fin 100) (Fin 200),
            [Print (new_text example_builtins Fore_RED Fore_GREEN (Fin 0) (Fin 100) (Fin 100) (Fin 200)
                    @ ''Time: 10:00:00'')])"
proof -
  have g: "get_data example_builtins (example_page [])
       (example_page [(lbank_sell_xpath 1, ''101''), (lbank_buy_xpath 1, ''100'')])
     = \<lparr> data_last_sell_mexc = Fin 0, data_last_buy_mexc = Fin 0,
         data_last_sell_lbank = Fin 101, data_last_buy_lbank = Fin 100 \<rparr>"
    by code_simp
  have s: "selected_prices \<lparr> data_last_sell_mexc = Fin 0, data_last_buy_mexc = Fin 0,
         data_last_sell_lbank = Fin 101, data_last_buy_lbank = Fin 100 \<rparr> = (Fin 0, Fin 100)"
    by (simp add: selected_prices_def select_direction_def mex_buy_and_lbnak_sell_def
        lbank_buy_and_mex_sell_def)
  have p: "diff_percent (Fin 0) (Fin 100) = Inr (Fin 200)"
    by (simp add: diff_percent_Fin)
  have "signal example_builtins \<lparr> data_last_sell_mexc = Fin 0, data_last_buy_mexc = Fin 0,
         data_last_sell_lbank = Fin 101, data_last_buy_lbank = Fin 100 \<rparr> ''10:00:00'' []
     = Inr (new_text example_builtins Fore_RED Fore_GREEN (Fin 0) (Fin 100) (Fin 100) (Fin 200),
            [Print (new_text example_builtins Fore_RED Fore_GREEN (Fin 0) (Fin 100) (Fin 100) (Fin 200)
                    @ ''Time: 10:00:00'')])"
    by (simp add: signal_def select_direction_def mex_buy_and_lbnak_sell_def
        lbank_buy_and_mex_sell_def try_except_print_def alert_body_def diff_percent_Fin
        float_gt_def threshold_def diff_absolute_def Let_def new_text_not_empty [symmetric])
  with g s p show ?thesis by (simp add: tick_def)
qed

text \<open>
  C1 (amended): a non-positive price in the selected direction is not filtered out; what
  the tick does is decided by the percentage computation alone. When the two prices sum to
  zero, in particular when both are the 0 of a failed read, the division raises
  \<open>ZeroDivisionError\<close>, which is caught: the exception is printed, no alert is printed and
  \<open>old_text\<close> is unchanged. When the percentage is computed and is greater than 1.5, the
  threshold test passes and the dedup is reached: the alert is printed unless its text is
  the last one emitted. When it is computed and is not greater than 1.5, nothing is printed
  and \<open>old_text\<close> is unchanged.
\<close>

theorem zero_price_behaviour:
  assumes "selected_prices q = (Fin p1, Fin p2)" and "p1 \<le> 0 \<or> p2 \<le> 0"
  shows "(p1 + p2 = 0 \<longrightarrow> signal bi q now old_text = Inr (old_text, [Print_exc ZeroDivisionError]))
     \<and> (\<forall>d_pct. diff_percent (Fin p1) (Fin p2) = Inr d_pct \<and> float_gt d_pct threshold \<longrightarrow>
          (\<exists>txt. alert_text bi q = Some txt
                \<and> signal bi q now old_text =
                    (if old_text \<noteq> txt then Inr (txt, [Print (txt @ ''Time: '' @ now)])
                     else Inr (old_text, []))))
     \<and> (\<forall>d_pct. diff_percent (Fin p1) (Fin p2) = Inr d_pct \<and> \<not> float_gt d_pct threshold \<longrightarrow>
          signal bi q now old_text = Inr (old_text, []))"
proof (intro conjI allI impI)
  assume "p1 + p2 = 0"
  with assms(1) show "signal bi q now old_text = Inr (old_text, [Print_exc ZeroDivisionError])"
    by (simp add: signal_rendered diff_percent_Fin)
next
  fix d_pct
  assume h: "diff_percent (Fin p1) (Fin p2) = Inr d_pct \<and> float_gt d_pct threshold"
  with assms(1) obtain tx where t: "alert_text bi q = Some tx"
    by (cases "select_direction q") (auto simp: alert_text_def rendered_def selected_prices_def)
  with assms(1) h show "\<exists>txt. alert_text bi q = Some txt
                \<and> signal bi q now old_text =
                    (if old_text \<noteq> txt then Inr (txt, [Print (txt @ ''Time: '' @ now)])
                     else Inr (old_text, []))"
    by (simp add: signal_rendered)
next
  fix d_pct
  assume h: "diff_percent (Fin p1) (Fin p2) = Inr d_pct \<and> \<not> float_gt d_pct threshold"
  with assms(1) have "alert_text bi q = None"
    by (simp add: alert_text_below)
  with assms(1) h show "signal bi q now old_text = Inr (old_text, [])"
    by (simp add: signal_rendered)
qed

theorem zero_price_behaviour_witness:
  "selected_prices \<lparr> data_last_sell_mexc = Fin 0, data_last_buy_mexc = Fin 0,
         data_last_sell_lbank = Fin 0, data_last_buy_lbank = Fin 0 \<rparr> = (Fin 0, Fin 0)
   \<and> signal example_builtins \<lparr> data_last_sell_mexc = Fin 0, data_last_buy_mexc = Fin 0,
         data_last_sell_lbank = Fin 0, data_last_buy_lbank = Fin 0 \<rparr> ''10:00:00'' ''old''
     = Inr (''old'', [Print_exc ZeroDivisionError])
   \<and> selected_prices \<lparr> data_last_sell_mexc = Fin 0, data_last_buy_mexc = Fin 0,
         data_last_sell_lbank = Fin 101, data_last_buy_lbank = Fin 100 \<rparr> = (Fin 0, Fin 100)
   \<and> diff_percent (Fin 0) (Fin 100) = Inr (Fin 200)
   \<and> float_gt (Fin 200) threshold
   \<and> signal example_builtins \<lparr> data_last_sell_mexc = Fin 0, data_last_buy_mexc = Fin 0,
         data_last_sell_lbank = Fin 101, data_last_buy_lbank = Fin 100 \<rparr> ''10:00:00'' [] \<noteq> Inr ([], [])
   \<and> selected_prices \<lparr> data_last_sell_mexc = Fin 0, data_last_buy_mexc = Fin 100,
         data_last_sell_lbank = Fin 0, data_last_buy_lbank = Fin (- 5) \<rparr> = (Fin 0, Fin (- 5))
   \<and> diff_percent (Fin 0) (Fin (- 5)) = Inr (Fin (- 200))
   \<and> \<not> float_gt (Fin (- 200)) threshold
   \<and> signal example_builtins \<lparr> data_last_sell_mexc = Fin 0, data_last_buy_mexc = Fin 100,
         data_last_sell_lbank = Fin 0, data_last_buy_lbank = Fin (- 5) \<rparr> ''10:00:00'' ''old''
     = Inr (''old'', [])"
proof -
  let ?q0 = "\<lparr> data_last_sell_mexc = Fin 0, data_last_buy_mexc = Fin 0,
         data_last_sell_lbank = Fin 0, data_last_buy_lbank = Fin 0 \<rparr>"
  let ?q1 = "\<lparr> data_last_sell_mexc = Fin 0, data_last_buy_mexc = Fin 0,
         data_last_sell_lbank = Fin 101, data_last_buy_lbank = Fin 100 \<rparr>"
  let ?q2 = "\<lparr> data_last_sell_mexc = Fin 0, data_last_buy_mexc = Fin 100,
         data_last_sell_lbank = Fin 0, data_last_buy_lbank = Fin (- 5) \<rparr>"
  have s0: "selected_prices ?q0 = (Fin 0, Fin 0)"
    by (simp add: selected_prices_def select_direction_def mex_buy_and_lbnak_sell_def
        lbank_buy_and_mex_sell_def)
  have s1: "selected_prices ?q1 = (Fin 0, Fin 100)"
    by (simp add: selected_prices_def select_direction_def mex_buy_and_lbnak_sell_def
        lbank_buy_and_mex_sell_def)
  have s2: "selected_prices ?q2 = (Fin 0, Fin (- 5))"
    by (simp add: selected_prices_def select_direction_def mex_buy_and_lbnak_sell_def
        lbank_buy_and_mex_sell_def)
  have n0: "(0::real) \<le> 0 \<or> (0::real) \<le> 0" by simp
  have n1: "(0::real) \<le> 0 \<or> (100::real) \<le> 0" by simp
  have n2: "(0::real) \<le> 0 \<or> (- 5::real) \<le> 0" by simp
  have p1: "diff_percent (Fin 0) (Fin 100) = Inr (Fin 200)"
    by (simp add: diff_percent_Fin)
  have g1: "float_gt (Fin 200) threshold"
    by (simp add: float_gt_def threshold_def)
  have p2: "diff_percent (Fin 0) (Fin (- 5)) = Inr (Fin (- 200))"
    by (simp add: diff_percent_Fin)
  have g2: "\<not> float_gt (Fin (- 200)) threshold"
    by (simp add: float_gt_def threshold_def)
  from zero_price_behaviour [OF s0 n0, of example_builtins "''10:00:00''" "''old''"]
  have e0: "signal example_builtins ?q0 ''10:00:00'' ''old'' = Inr (''old'', [Print_exc ZeroDivisionError])"
    by simp
  from zero_price_behaviour [OF s1 n1, of example_builtins "''10:00:00''" "[]"] p1 g1
  have e1: "signal example_builtins ?q1 ''10:00:00'' [] \<noteq> Inr ([], [])"
    by (auto dest: alert_text_not_empty)
  from zero_price_behaviour [OF s2 n2, of example_builtins "''10:00:00''" "''old''"] p2 g2
  have e2: "signal example_builtins ?q2 ''10:00:00'' ''old'' = Inr (''old'', [])"
    by simp
  from s0 e0 s1 p1 g1 e1 s2 p2 g2 e2 show ?thesis by blast
qed

text \<open>
  C8: when one of the two prices of the selected direction is \<open>nan\<close> or infinite, the
  percentage comes out as \<open>nan\<close> without an exception, the test \<open>diff_percent > 1.5\<close> is
  false, and the tick prints nothing (no alert, no diagnostic) and leaves \<open>old_text\<close>
  unchanged.
\<close>

theorem non_finite_silent:
  assumes "selected_prices q = (data1, data2)" and "\<not> is_finite data1 \<or> \<not> is_finite data2"
  shows "diff_percent data1 data2 = Inr NaN \<and> signal bi q now old_text = Inr (old_text, [])"
proof -
  from assms(2) have p: "diff_percent data1 data2 = Inr NaN"
    by (cases data1; cases data2)
       (simp_all add: diff_percent_def diff_absolute_def divisor_def float_truediv_def)
  have "alert_text bi q = None"
    using assms(1) p
    by (cases "select_direction q")
       (simp_all add: alert_text_def rendered_def selected_prices_def float_gt_def threshold_def)
  with p assms(1) show ?thesis by (simp add: signal_rendered)
qed

theorem non_finite_silent_witness:
  "selected_prices \<lparr> data_last_sell_mexc = NaN, data_last_buy_mexc = Fin 99,
         data_last_sell_lbank = Fin 101, data_last_buy_lbank = Fin 100 \<rparr> = (NaN, Fin 100)
   \<and> \<not> is_finite NaN
   \<and> signal example_builtins \<lparr> data_last_sell_mexc = NaN, data_last_buy_mexc = Fin 99,
         data_last_sell_lbank = Fin 101, data_last_buy_lbank = Fin 100 \<rparr> ''10:00:00'' ''old''
     = Inr (''old'', [])
   \<and> selected_prices \<lparr> data_last_sell_mexc = PInf, data_last_buy_mexc = PInf,
         data_last_sell_lbank = Fin 101, data_last_buy_lbank = Fin 100 \<rparr> = (PInf, Fin 100)
   \<and> \<not> is_finite PInf
   \<and> signal example_builtins \<lparr> data_last_sell_mexc = PInf, data_last_buy_mexc = PInf,
         data_last_sell_lbank = Fin 101, data_last_buy_lbank = Fin 100 \<rparr> ''10:00:00'' ''old''
     = Inr (''old'', [])"
proof -
  let ?q1 = "\<lparr> data_last_sell_mexc = NaN, data_last_buy_mexc = Fin 99,
         data_last_sell_lbank = Fin 101, data_last_buy_lbank = Fin 100 \<rparr>"
  let ?q2 = "\<lparr> data_last_sell_mexc = PInf, data_last_buy_mexc = PInf,
         data_last_sell_lbank = Fin 101, data_last_buy_lbank = Fin 100 \<rparr>"
  have s1: "selected_prices ?q1 = (NaN, Fin 100)"
    by (simp add: selected_prices_def select_direction_def mex_buy_and_lbnak_sell_def
        lbank_buy_and_mex_sell_def)
  have s2: "selected_prices ?q2 = (PInf, Fin 100)"
    by (simp add: selected_prices_def select_direction_def mex_buy_and_lbnak_sell_def
        lbank_buy_and_mex_sell_def)
  have n1: "\<not> is_finite NaN \<or> \<not> is_finite (Fin 100)" by simp
  have n2: "\<not> is_finite PInf \<or> \<not> is_finite (Fin 100)" by simp
  from non_finite_silent [OF s1 n1, of example_builtins "''10:00:00''" "''old''"]
    non_finite_silent [OF s2 n2, of example_builtins "''10:00:00''" "''old''"] s1 s2
  show ?thesis by simp
qed

section \<open>The loop and its handlers\<close>

text \<open>
  C9: whatever the two pages do on any read, and whatever the builtins do, a tick ends
  without an exception leaving it, and the loop runs every tick it is given. Exceptions of
  the field reads are swallowed: the only exception a tick ever prints is the
  \<open>ZeroDivisionError\<close> of the percentage. When the percentage raises, the exception is
  printed, nothing else happens in that tick and \<open>old_text\<close> is unchanged. (\<open>print\<close> itself
  is taken not to fail, and \<open>KeyboardInterrupt\<close>, which is not an \<open>Exception\<close>, is outside
  the model.)
\<close>

theorem loop_survives_bad_reads:
  "(\<exists>txt out. tick bi env old_text = Inr (txt, out))
   \<and> (\<exists>txt out. monitor bi envs old_text = Inr (txt, out, length envs))
   \<and> (\<forall>txt out e. tick bi env old_text = Inr (txt, out) \<and> Print_exc e \<in> set out \<longrightarrow> e = ZeroDivisionError)
   \<and> (\<forall>data1 data2 e. selected_prices (get_data bi (driver1 env) (driver2 env)) = (data1, data2)
          \<and> diff_percent data1 data2 = Inl e
        \<longrightarrow> tick bi env old_text = Inr (old_text, [Print_exc e]))"
proof -
  have a: "\<exists>txt out. tick bi env old_text = Inr (txt, out)"
    by (simp add: tick_def signal_returns)
  have b: "\<exists>txt out. monitor bi envs old_text = Inr (txt, out, length envs)"
    by (rule monitor_returns)
  have c: "\<forall>txt out e. tick bi env old_text = Inr (txt, out) \<and> Print_exc e \<in> set out \<longrightarrow> e = ZeroDivisionError"
    using signal_diagnostics by (auto simp: tick_def)
  have d: "\<forall>data1 data2 e. selected_prices (get_data bi (driver1 env) (driver2 env)) = (data1, data2)
          \<and> diff_percent data1 data2 = Inl e
        \<longrightarrow> tick bi env old_text = Inr (old_text, [Print_exc e])"
    by (auto simp: tick_def signal_rendered)
  from a b c d show ?thesis by blast
qed

theorem loop_survives_bad_reads_witness:
  "get_data example_builtins (example_page []) (example_page [])
     = \<lparr> data_last_sell_mexc = Fin 0, data_last_buy_mexc = Fin 0,
         data_last_sell_lbank = Fin 0, data_last_buy_lbank = Fin 0 \<rparr>
   \<and> selected_prices \<lparr> data_last_sell_mexc = Fin 0, data_last_buy_mexc = Fin 0,
         data_last_sell_lbank = Fin 0, data_last_buy_lbank = Fin 0 \<rparr> = (Fin 0, Fin 0)
   \<and> diff_percent (Fin 0) (Fin 0) = Inl ZeroDivisionError
   \<and> tick example_builtins
        \<lparr> driver1 = example_page [], driver2 = example_page [], clock = ''10:00:00'' \<rparr> ''old''
     = Inr (''old'', [Print_exc ZeroDivisionError])
   \<and> monitor example_builtins
        [\<lparr> driver1 = example_page [], driver2 = example_page [], clock = ''10:00:00'' \<rparr>,
         \<lparr> driver1 = example_page [(mexc_sell_xpath 1, ''abc'')],
           driver2 = example_page [(lbank_sell_xpath 1, ''101''), (lbank_buy_xpath 1, ''100'')],
           clock = ''10:00:01'' \<rparr>,
         \<lparr> driver1 = example_page [], driver2 = example_page [], clock = ''10:00:02'' \<rparr>] []
     = Inr (new_text example_builtins Fore_RED Fore_GREEN (Fin 0) (Fin 100) (Fin 100) (Fin 200),
            [Print_exc ZeroDivisionError,
             Print (new_text example_builtins Fore_RED Fore_GREEN (Fin 0) (Fin 100) (Fin 100) (Fin 200)
                    @ ''Time: 10:00:01''),
             Print_exc ZeroDivisionError],
            3)"
proof -
  let ?dead = "\<lparr> driver1 = example_page [], driver2 = example_page [], clock = ''10:00:00'' \<rparr>"
  have g: "get_data example_builtins (example_page []) (example_page [])
     = \<lparr> data_last_sell_mexc = Fin 0, data_last_buy_mexc = Fin 0,
         data_last_sell_lbank = Fin 0, data_last_buy_lbank = Fin 0 \<rparr>"
    by code_simp
  have s: "selected_prices \<lparr> data_last_sell_mexc = Fin 0, data_last_buy_mexc = Fin 0,
         data_last_sell_lbank = Fin 0, data_last_buy_lbank = Fin 0 \<rparr> = (Fin 0, Fin 0)"
    by (simp add: selected_prices_def select_direction_def mex_buy_and_lbnak_sell_def
        lbank_buy_and_mex_sell_def)
  have p: "diff_percent (Fin 0) (Fin 0) = Inl ZeroDivisionError"
    by (simp add: diff_percent_Fin)
  from loop_survives_bad_reads [of example_builtins ?dead "''old''" "[]"] g s p
  have t: "tick example_builtins ?dead ''old'' = Inr (''old'', [Print_exc ZeroDivisionError])"
    by simp
  have m: "monitor example_builtins
        [\<lparr> driver1 = example_page [], driver2 = example_page [], clock = ''10:00:00'' \<rparr>,
         \<lparr> driver1 = example_page [(mexc_sell_xpath 1, ''abc'')],
           driver2 = example_page [(lbank_sell_xpath 1, ''101''), (lbank_buy_xpath 1, ''100'')],
           clock = ''10:00:01'' \<rparr>,
         \<lparr> driver1 = example_page [], driver2 = example_page [], clock = ''10:00:02'' \<rparr>] []
     = Inr (new_text example_builtins Fore_RED Fore_GREEN (Fin 0) (Fin 100) (Fin 100) (Fin 200),
            [Print_exc ZeroDivisionError,
             Print (new_text example_builtins Fore_RED Fore_GREEN (Fin 0) (Fin 100) (Fin 100) (Fin 200)
                    @ ''Time: 10:00:01''),
             Print_exc ZeroDivisionError],
            3)"
    by code_simp
  from g s p t m show ?thesis by blast
qed

section \<open>What a scan leaves in its variable\<close>

text \<open>
  C10: after the reads of a tick, the MEXC sell and LBank sell prices are the parsed price
  of the last row read before the first read that fails in the scan of rows 1 to 19, or 0
  when row 1 already fails; they are not the price of row 1. The XPath of the LBank buy scan
  does not depend on the row, so that price is the parse of \<open>li[1]\<close>, or 0 when that read
  fails.
\<close>

theorem scanned_fields:
  "data_last_sell_mexc (get_data bi d1 d2)
     = last_read_before_failure (\<lambda>i. read_price bi d1 (mexc_sell_xpath i)) [1..<20]
   \<and> data_last_sell_lbank (get_data bi d1 d2)
     = last_read_before_failure (\<lambda>i. read_price bi d2 (lbank_sell_xpath i)) [1..<20]
   \<and> data_last_buy_lbank (get_data bi d1 d2)
     = last_read_before_failure (\<lambda>i. read_price bi d2 (lbank_buy_xpath i)) [1..<20]
   \<and> data_last_buy_lbank (get_data bi d1 d2)
     = (case read_price bi d2 (lbank_buy_xpath 1) of Inl e \<Rightarrow> Fin 0 | Inr x \<Rightarrow> x)"
proof -
  have const: "(\<lambda>i. read_price bi d2 (lbank_buy_xpath i)) = (\<lambda>i. read_price bi d2 (lbank_buy_xpath 1))"
    by (simp add: lbank_buy_xpath_def)
  have a: "data_last_sell_mexc (get_data bi d1 d2)
     = last_read_before_failure (\<lambda>i. read_price bi d1 (mexc_sell_xpath i)) [1..<20]"
    by (simp add: get_data_def except_pass_def last_read_before_failure_def for_rows_last_read
        range_1_20_def)
  have b: "data_last_sell_lbank (get_data bi d1 d2)
     = last_read_before_failure (\<lambda>i. read_price bi d2 (lbank_sell_xpath i)) [1..<20]"
    by (simp add: get_data_def except_pass_def last_read_before_failure_def for_rows_last_read
        range_1_20_def)
  have c: "data_last_buy_lbank (get_data bi d1 d2)
     = last_read_before_failure (\<lambda>i. read_price bi d2 (lbank_buy_xpath i)) [1..<20]"
    by (simp add: get_data_def except_pass_def last_read_before_failure_def for_rows_last_read
        range_1_20_def)
  have d: "data_last_buy_lbank (get_data bi d1 d2)
     = (case read_price bi d2 (lbank_buy_xpath 1) of Inl e \<Rightarrow> Fin 0 | Inr x \<Rightarrow> x)"
    by (simp only: get_data_def except_pass_def const range_1_20_Cons for_rows_constant quotes.simps)
  from a b c d show ?thesis by simp
qed

theorem scanned_fields_witness:
  "get_data example_builtins
     (example_page [(mexc_sell_xpath 1, ''7''), (mexc_sell_xpath 2, ''8''), (mexc_sell_xpath 3, ''9''),
                    (mexc_sell_xpath 5, ''11''), (mexc_buy_xpath, ''6'')])
     (example_page [(lbank_sell_xpath 1, ''12''), (lbank_sell_xpath 2, ''x''), (lbank_buy_xpath 1, ''10'')])
     = \<lparr> data_last_sell_mexc = Fin 9, data_last_buy_mexc = Fin 6,
         data_last_sell_lbank = Fin 12, data_last_buy_lbank = Fin 10 \<rparr>
   \<and> read_price example_builtins
       (example_page [(mexc_sell_xpath 1, ''7''), (mexc_sell_xpath 2, ''8''), (mexc_sell_xpath 3, ''9''),
                      (mexc_sell_xpath 5, ''11''), (mexc_buy_xpath, ''6'')]) (mexc_sell_xpath 1)
     = Inr (Fin 7)
   \<and> last_read_before_failure
       (\<lambda>i. read_price example_builtins
          (example_page [(mexc_sell_xpath 1, ''7''), (mexc_sell_xpath 2, ''8''), (mexc_sell_xpath 3, ''9''),
                         (mexc_sell_xpath 5, ''11''), (mexc_buy_xpath, ''6'')]) (mexc_sell_xpath i))
       [1..<20] = Fin 9"
proof -
  let ?p1 = "example_page [(mexc_sell_xpath 1, ''7''), (mexc_sell_xpath 2, ''8''), (mexc_sell_xpath 3, ''9''),
                    (mexc_sell_xpath 5, ''11''), (mexc_buy_xpath, ''6'')]"
  let ?p2 = "example_page [(lbank_sell_xpath 1, ''12''), (lbank_sell_xpath 2, ''x''), (lbank_buy_xpath 1, ''10'')]"
  have g: "get_data example_builtins ?p1 ?p2
     = \<lparr> data_last_sell_mexc = Fin 9, data_last_buy_mexc = Fin 6,
         data_last_sell_lbank = Fin 12, data_last_buy_lbank = Fin 10 \<rparr>"
    by code_simp
  have r: "read_price example_builtins ?p1 (mexc_sell_xpath 1) = Inr (Fin 7)"
    by code_simp
  from scanned_fields [of example_builtins ?p1 ?p2] g
  have "last_read_before_failure (\<lambda>i. read_price example_builtins ?p1 (mexc_sell_xpath i)) [1..<20] = Fin 9"
    by simp
  with g r show ?thesis by blast
qed

end
